theory Spec2Isabelle
  imports Main
begin

section \<open>JSON values, claim sets and Python truthiness\<close>

text \<open>
  The claims of a token are a Python dict from claim names to JSON values. Nested arrays
  and objects do not occur in the claims the application reads and are left out.
\<close>

datatype jval = JNull | JBool bool | JNum int | JStr string

type_synonym claims = "string \<rightharpoonup> jval"

text \<open>Python's truth value of a decoded JSON value (\<open>if x:\<close>, \<open>if not x:\<close>).\<close>

fun truthy :: "jval \<Rightarrow> bool" where
  "truthy JNull = False"
| "truthy (JBool b) = b"
| "truthy (JNum n) = (n \<noteq> 0)"
| "truthy (JStr s) = (s \<noteq> [])"

text \<open>\<open>d.get(k)\<close>: the value, or Python's None (which JSON null also decodes to).\<close>

definition dict_get :: "claims \<Rightarrow> string \<Rightarrow> jval" where
  "dict_get d k = (case d k of None \<Rightarrow> JNull | Some v \<Rightarrow> v)"

text \<open>The exceptions that leave the two methods, and what a call does: return or raise.\<close>

datatype exn = KeyError string | ValueError string | ResourceError jval

datatype 'a outcome = Returned 'a | Raised exn

section \<open>The JWT library as the application calls it\<close>

text \<open>
  The application uses three calls of the PyJWT library of its time (the one that has
  \<open>jwt.ExpiredSignature\<close>): \<open>jwt.encode(payload, key, algorithm)\<close>,
  \<open>jwt.decode(token, verify=False)\<close> and \<open>jwt.decode(token, key)\<close>.

  A signature is symbolic: \<open>HMAC a k p\<close> is the MAC that algorithm \<open>a\<close> computes with
  key \<open>k\<close> over the signing input of a token with header algorithm \<open>a\<close> and payload
  \<open>p\<close>; any other signature segment is \<open>Bytes\<close>. Two signatures are equal exactly when
  they are the same term.

  The compact serialisation (three base64url segments) is a parameter: \<open>jwt_dump\<close> writes
  a token as a string, \<open>jwt_load\<close> parses a string and gives None where the library raises
  \<open>DecodeError\<close>.
\<close>

datatype mac = HMAC string string claims | Bytes string

record jwt =
  alg :: string
  payload :: claims
  signature :: mac

record jwtlib =
  jwt_load :: "string \<Rightarrow> jwt option"
  jwt_dump :: "jwt \<Rightarrow> string"

datatype jwt_error = DecodeError | ExpiredSignature

text \<open>The token that \<open>jwt.encode\<close> serialises: header, payload and the MAC over both.\<close>

definition jwt_sign :: "claims \<Rightarrow> string \<Rightarrow> string \<Rightarrow> jwt" where
  "jwt_sign body key algorithm =
     \<lparr>alg = algorithm, payload = body, signature = HMAC algorithm key body\<rparr>"

definition jwt_encode :: "jwtlib \<Rightarrow> claims \<Rightarrow> string \<Rightarrow> string \<Rightarrow> string" where
  "jwt_encode lib body key algorithm = jwt_dump lib (jwt_sign body key algorithm)"

text \<open>\<open>jwt.decode(token, verify=False)\<close>: the payload, with no check of signature or expiry.\<close>

definition jwt_decode_unverified :: "jwtlib \<Rightarrow> string \<Rightarrow> jwt_error + claims" where
  "jwt_decode_unverified lib token =
     (case jwt_load lib token of None \<Rightarrow> Inl DecodeError | Some j \<Rightarrow> Inr (payload j))"

definition hmac_algorithms :: "string list" where
  "hmac_algorithms = [''HS256'', ''HS384'', ''HS512'']"

text \<open>
  \<open>jwt.decode(token, key)\<close>: the caller names no algorithm, and the library takes it from
  the \<open>alg\<close> field of the token's header, recomputes the MAC with the key and compares;
  then it rejects a token whose \<open>exp\<close> lies before the clock reading \<open>now\<close>. A non-numeric
  \<open>exp\<close> is taken as a decoding error.
\<close>

definition jwt_decode :: "jwtlib \<Rightarrow> string \<Rightarrow> string \<Rightarrow> int \<Rightarrow> jwt_error + claims" where
  "jwt_decode lib token key now =
     (case jwt_load lib token of
        None \<Rightarrow> Inl DecodeError
      | Some j \<Rightarrow>
          if alg j \<notin> set hmac_algorithms then Inl DecodeError
          else if signature j \<noteq> HMAC (alg j) key (payload j) then Inl DecodeError
          else (case payload j ''exp'' of
                  None \<Rightarrow> Inr (payload j)
                | Some (JNum e) \<Rightarrow> if e < now then Inl ExpiredSignature else Inr (payload j)
                | Some _ \<Rightarrow> Inl DecodeError))"

section \<open>URLs\<close>

text \<open>
  \<open>urlparse(url).query\<close> of Python 2.7: the scheme is split off at the first colon when
  the text before it is made of scheme characters (and what follows is not a port number),
  the network location after \<open>//\<close> ends at the first of \<open>/ ? #\<close>, a network location
  with one square bracket but not the other raises ValueError, the fragment starts at the
  first \<open>#\<close> and the query at the first \<open>?\<close> before it.
\<close>

definition scheme_char :: "char \<Rightarrow> bool" where
  "scheme_char c \<longleftrightarrow>
     c \<in> set ''abcdefghijklmnopqrstuvwxyzABCDEFGHIJKLMNOPQRSTUVWXYZ0123456789+-.''"

definition digit_char :: "char \<Rightarrow> bool" where
  "digit_char c \<longleftrightarrow> c \<in> set ''0123456789''"

definition split_scheme :: "string \<Rightarrow> string" where
  "split_scheme url =
     (let pre = takeWhile (\<lambda>c. c \<noteq> CHR '':'') url;
          rest = drop (Suc (length pre)) url
      in if CHR '':'' \<in> set url \<and> pre \<noteq> [] then
           (if pre = ''http'' then rest
            else if list_all scheme_char pre \<and> (rest = [] \<or> \<not> list_all digit_char rest)
                 then rest
            else url)
         else url)"

definition netloc_end :: "char \<Rightarrow> bool" where
  "netloc_end c \<longleftrightarrow> c = CHR ''/'' \<or> c = CHR ''?'' \<or> c = CHR ''#''"

definition split_netloc :: "string \<Rightarrow> string \<times> string" where
  "split_netloc url =
     (if take 2 url = ''//''
      then (takeWhile (\<lambda>c. \<not> netloc_end c) (drop 2 url),
            dropWhile (\<lambda>c. \<not> netloc_end c) (drop 2 url))
      else ([], url))"

definition urlparse_query :: "string \<Rightarrow> string option" where
  "urlparse_query url =
     (case split_netloc (split_scheme url) of (netloc, rest) \<Rightarrow>
        if (CHR ''['' \<in> set netloc) \<noteq> (CHR '']'' \<in> set netloc) then None
        else (let front = takeWhile (\<lambda>c. c \<noteq> CHR ''#'') rest
              in Some (if CHR ''?'' \<in> set front
                       then tl (dropWhile (\<lambda>c. c \<noteq> CHR ''?'') front)
                       else [])))"

text \<open>\<open>s.split(sep)\<close> for a one-character separator: never the empty list.\<close>

fun split_on :: "char \<Rightarrow> string \<Rightarrow> string list" where
  "split_on sep [] = [[]]"
| "split_on sep (c # cs) =
     (if c = sep then [] # split_on sep cs
      else (case split_on sep cs of
              [] \<Rightarrow> [[c]]
            | w # ws \<Rightarrow> (c # w) # ws))"

text \<open>
  \<open>urlparse(url_response).query.split('=')[1]\<close> inside \<open>try ... except: return None\<close>:
  None stands for any exception (the ValueError of the parse, the IndexError of \<open>[1]\<close>).
\<close>

definition callback_jwt :: "string \<Rightarrow> string option" where
  "callback_jwt url_response =
     (case urlparse_query url_response of
        None \<Rightarrow> None
      | Some query \<Rightarrow>
          (case split_on (CHR ''='') query of
             _ # jwt_response # _ \<Rightarrow> Some jwt_response
           | _ \<Rightarrow> None))"

text \<open>
  \<open>urllib.urlencode\<close> of a one-entry dict: key and value go through \<open>quote_plus\<close>, which
  keeps letters, digits and \<open>_.-\<close>, writes a space as \<open>+\<close> and any other byte as \<open>%XX\<close>.
\<close>

definition always_safe :: "char \<Rightarrow> bool" where
  "always_safe c \<longleftrightarrow>
     c \<in> set ''ABCDEFGHIJKLMNOPQRSTUVWXYZabcdefghijklmnopqrstuvwxyz0123456789_.-''"

definition hex_digit :: "nat \<Rightarrow> char" where
  "hex_digit n = ''0123456789ABCDEF'' ! (n mod 16)"

definition quote_char :: "char \<Rightarrow> string" where
  "quote_char c =
     (if always_safe c then [c]
      else if c = CHR '' '' then ''+''
      else [CHR ''%'', hex_digit (of_char c div 16), hex_digit (of_char c)])"

definition quote_plus :: "string \<Rightarrow> string" where
  "quote_plus s = concat (map quote_char s)"

definition urlencode :: "string \<Rightarrow> string \<Rightarrow> string" where
  "urlencode k v = quote_plus k @ ''='' @ quote_plus v"

section \<open>The application and its collaborators\<close>

record api_key =
  key_id :: string
  secret :: string

record account =
  href :: jval
  sp_http_status :: nat

record nonce =
  nonce_href :: string
  nonce_value :: jval

text \<open>
  The \<open>Application\<close> object as the two methods see it. The key list, the account list and
  the \<open>Nonce\<close> class live in other modules, so they are parameters here:
  \<open>get_key\<close> is \<open>self.api_keys.get_key(client_id=...)\<close> (None when there is no such key),
  \<open>get_account\<close> is \<open>self.accounts.get(href)\<close> with the retrieval that reading
  \<open>sp_http_status\<close> forces (None when that retrieval raises), and \<open>new_nonce\<close> is the
  constructor \<open>Nonce(value)\<close>.
\<close>

record application =
  app_href :: string
  get_key :: "jval \<Rightarrow> api_key option"
  get_account :: "jval \<Rightarrow> account option"
  new_nonce :: "jval \<Rightarrow> nonce"

text \<open>
  Modelled from the spec: the data store behind \<open>self._store\<close>, whose module is not among
  the sources. The spec describes it as a key-value cache with get/put semantics; the
  cached data of an entry is a dict, kept here as a list of its items. The store also
  records which accounts were retrieved through it.
\<close>

record data_store =
  cache :: "string \<rightharpoonup> (string \<times> jval) list"
  retrieved :: "jval list"

definition cache_get :: "data_store \<Rightarrow> string \<Rightarrow> (string \<times> jval) list option" where
  "cache_get st h = cache st h"

definition cache_put :: "data_store \<Rightarrow> string \<Rightarrow> (string \<times> jval) list \<Rightarrow> data_store" where
  "cache_put st h d = st\<lparr>cache := (cache st)(h \<mapsto> d)\<rparr>"

text \<open>\<open>if self._store._cache_get(href):\<close> holds for an entry that is a non-empty dict.\<close>

definition cache_hit :: "(string \<times> jval) list option \<Rightarrow> bool" where
  "cache_hit r = (case r of None \<Rightarrow> False | Some d \<Rightarrow> d \<noteq> [])"

record id_site_callback_result =
  account :: account
  state :: jval

section \<open>build_id_site_redirect_url\<close>

definition SSO_ENDPOINT :: string where
  "SSO_ENDPOINT = ''https://api.stormpath.com/sso''"

text \<open>
  The body of the request token. \<open>now\<close> is the reading of \<open>datetime.utcnow()\<close> and \<open>jti\<close>
  the hex form of the fresh \<open>uuid4()\<close>; \<open>path\<close> and \<open>state\<close> are None or a string, and
  \<open>if path:\<close> holds for a non-empty string only.
\<close>

definition id_site_body ::
  "application \<Rightarrow> api_key \<Rightarrow> string \<Rightarrow> string option \<Rightarrow> string option \<Rightarrow> int \<Rightarrow> string \<Rightarrow> claims"
where
  "id_site_body app key callback_uri path state' now jti =
     (let body = [''iat'' \<mapsto> JNum now,
                  ''jti'' \<mapsto> JStr jti,
                  ''iss'' \<mapsto> JStr (key_id key),
                  ''sub'' \<mapsto> JStr (app_href app),
                  ''cb_uri'' \<mapsto> JStr callback_uri];
          body = (case path of
                    None \<Rightarrow> body
                  | Some p \<Rightarrow> if p \<noteq> [] then body(''path'' \<mapsto> JStr p) else body);
          body = (case state' of
                    None \<Rightarrow> body
                  | Some s \<Rightarrow> if s \<noteq> [] then body(''state'' \<mapsto> JStr s) else body)
      in body)"

text \<open>The signed request token, the method's \<open>jwt_signature\<close>: always signed with HS256.\<close>

definition id_site_jwt ::
  "jwtlib \<Rightarrow> application \<Rightarrow> api_key \<Rightarrow> string \<Rightarrow> string option \<Rightarrow> string option \<Rightarrow>
   int \<Rightarrow> string \<Rightarrow> string"
where
  "id_site_jwt lib app key callback_uri path state' now jti =
     jwt_encode lib (id_site_body app key callback_uri path state' now jti) (secret key) ''HS256''"

definition build_id_site_redirect_url ::
  "jwtlib \<Rightarrow> application \<Rightarrow> api_key \<Rightarrow> string \<Rightarrow> string option \<Rightarrow> string option \<Rightarrow>
   int \<Rightarrow> string \<Rightarrow> string"
where
  "build_id_site_redirect_url lib app key callback_uri path state' now jti =
     (let jwt_signature = id_site_jwt lib app key callback_uri path state' now jti
      in SSO_ENDPOINT @ ''?'' @ urlencode ''jwtRequest'' jwt_signature)"

section \<open>handle_id_site_callback\<close>

text \<open>
  The method up to and including the look into the cache: either the call is over (it
  returned None, or raised), or the token is verified and its nonce is not in the cache.
  Nothing is written in this part.
\<close>

definition check_callback ::
  "jwtlib \<Rightarrow> application \<Rightarrow> int \<Rightarrow> string \<Rightarrow> data_store \<Rightarrow>
   id_site_callback_result option outcome + claims \<times> nonce"
where
  "check_callback lib app now url_response st =
     (case callback_jwt url_response of
        None \<Rightarrow> Inl (Returned None)
      | Some jwt_response \<Rightarrow>
     (case jwt_decode_unverified lib jwt_response of
        Inl _ \<Rightarrow> Inl (Returned None)
      | Inr unverified \<Rightarrow>
          let api_key_id = dict_get unverified ''aud'' in
          if \<not> truthy api_key_id then Inl (Returned None)
          else
     (case get_key app api_key_id of
        None \<Rightarrow> Inl (Returned None)
      | Some key \<Rightarrow>
     (case jwt_decode lib jwt_response (secret key) now of
        Inl _ \<Rightarrow> Inl (Returned None)
      | Inr decoded_data \<Rightarrow>
     (case decoded_data ''irt'' of
        None \<Rightarrow> Inl (Raised (KeyError ''irt''))
      | Some irt \<Rightarrow>
          let nonce = new_nonce app irt in
          if cache_hit (cache_get st (nonce_href nonce))
          then Inl (Raised (ValueError ''JWT has already been used.''))
          else Inr (decoded_data, nonce))))))"

text \<open>The rest of the method: the nonce is stored, the claims are read, the account is fetched.\<close>

definition store_callback ::
  "application \<Rightarrow> claims \<Rightarrow> nonce \<Rightarrow> data_store \<Rightarrow>
   id_site_callback_result option outcome \<times> data_store"
where
  "store_callback app decoded_data nonce st =
     (let st1 = cache_put st (nonce_href nonce) [(''value'', nonce_value nonce)] in
      case decoded_data ''iss'' of
        None \<Rightarrow> (Raised (KeyError ''iss''), st1)
      | Some issuer \<Rightarrow>
     (case decoded_data ''sub'' of
        None \<Rightarrow> (Raised (KeyError ''sub''), st1)
      | Some account_href \<Rightarrow>
     (case decoded_data ''isNewSub'' of
        None \<Rightarrow> (Raised (KeyError ''isNewSub''), st1)
      | Some is_new_account \<Rightarrow>
     (case decoded_data ''state'' of
        None \<Rightarrow> (Raised (KeyError ''state''), st1)
      | Some state' \<Rightarrow>
          let st2 = st1\<lparr>retrieved := retrieved st1 @ [account_href]\<rparr> in
          (case get_account app account_href of
             None \<Rightarrow> (Raised (ResourceError account_href), st2)
           | Some acc \<Rightarrow>
               (Returned (Some \<lparr>account = acc\<lparr>sp_http_status :=
                                    (if truthy is_new_account then 201 else 200)\<rparr>,
                                 state = state'\<rparr>), st2))))))"

definition handle_id_site_callback ::
  "jwtlib \<Rightarrow> application \<Rightarrow> int \<Rightarrow> string \<Rightarrow> data_store \<Rightarrow>
   id_site_callback_result option outcome \<times> data_store"
where
  "handle_id_site_callback lib app now url_response st =
     (case check_callback lib app now url_response st of
        Inl out \<Rightarrow> (out, st)
      | Inr (decoded_data, nonce) \<Rightarrow> store_callback app decoded_data nonce st)"

section \<open>Two callers on one store\<close>

text \<open>
  The method reaches the store twice: \<open>_cache_get\<close> at the end of \<open>check_callback\<close> and
  \<open>_cache_put\<close> at the start of \<open>store_callback\<close>. Two calls for the same callback URL
  that share the store are run under a schedule: each entry lets one caller take its next
  step, and a step holds one access to the store. Each call reads the clock for itself
  (inside \<open>jwt.decode\<close>, in its first step), so each caller has a clock reading of its own.
\<close>

datatype caller =
  Start
| Checked claims nonce
| Done "id_site_callback_result option outcome"

definition step_caller ::
  "jwtlib \<Rightarrow> application \<Rightarrow> int \<Rightarrow> string \<Rightarrow> caller \<Rightarrow> data_store \<Rightarrow> caller \<times> data_store"
where
  "step_caller lib app now url c st =
     (case c of
        Start \<Rightarrow>
          (case check_callback lib app now url st of
             Inl out \<Rightarrow> (Done out, st)
           | Inr (decoded_data, nonce) \<Rightarrow> (Checked decoded_data nonce, st))
      | Checked decoded_data nonce \<Rightarrow>
          (case store_callback app decoded_data nonce st of (out, st') \<Rightarrow> (Done out, st'))
      | Done out \<Rightarrow> (Done out, st))"

fun run_callers ::
  "jwtlib \<Rightarrow> application \<Rightarrow> int \<Rightarrow> int \<Rightarrow> string \<Rightarrow> bool list \<Rightarrow>
   caller \<times> caller \<times> data_store \<Rightarrow> caller \<times> caller \<times> data_store"
where
  "run_callers lib app now_a now_b url [] cfg = cfg"
| "run_callers lib app now_a now_b url (first # sched) (a, b, st) =
     (if first
      then (case step_caller lib app now_a url a st of
              (a', st') \<Rightarrow> run_callers lib app now_a now_b url sched (a', b, st'))
      else (case step_caller lib app now_b url b st of
              (b', st') \<Rightarrow> run_callers lib app now_a now_b url sched (a, b', st')))"

fun succeeded :: "caller \<Rightarrow> bool" where
  "succeeded (Done (Returned (Some r))) = True"
| "succeeded _ = False"

section \<open>A concrete application\<close>

text \<open>
  The setting of the repository's tests: the key \<open>ID\<close>/\<open>SECRET\<close>, the application
  \<open>apphref\<close>, the account \<open>acchref\<close>, and a response token with the claims of the
  tests' \<open>fake_jwt_data\<close>. The serialisation names each token it knows by a short string.
\<close>

definition demo_key :: api_key where
  "demo_key = \<lparr>key_id = ''ID'', secret = ''SECRET''\<rparr>"

definition demo_app :: application where
  "demo_app =
     \<lparr>app_href = ''apphref'',
      get_key = (\<lambda>v. if v = JStr ''ID'' then Some demo_key else None),
      get_account = (\<lambda>v. if v = JStr ''acchref''
                          then Some \<lparr>href = v, sp_http_status = 200\<rparr> else None),
      new_nonce = (\<lambda>v. \<lparr>nonce_href = (case v of JStr s \<Rightarrow> ''/nonces/'' @ s | _ \<Rightarrow> ''/nonces/''),
                        nonce_value = v\<rparr>)\<rparr>"

definition demo_claims :: claims where
  "demo_claims =
     [''exp'' \<mapsto> JNum 3600, ''aud'' \<mapsto> JStr ''ID'', ''irt'' \<mapsto> JStr ''irt1'',
      ''iss'' \<mapsto> JStr ''Stormpath'', ''sub'' \<mapsto> JStr ''acchref'',
      ''isNewSub'' \<mapsto> JBool False, ''state'' \<mapsto> JNull]"

definition plain_body :: claims where
  "plain_body = id_site_body demo_app demo_key ''http://localhost/'' None None 0 ''jti1''"

definition routed_body :: claims where
  "routed_body =
     id_site_body demo_app demo_key ''http://testserver/'' (Some ''/#/register'') (Some ''test'')
       0 ''jti2''"

definition demo_load :: "string \<Rightarrow> jwt option" where
  "demo_load s =
     (if s = ''good'' then Some (jwt_sign demo_claims ''SECRET'' ''HS256'')
      else if s = ''hs384'' then Some (jwt_sign demo_claims ''SECRET'' ''HS384'')
      else if s = ''forged'' then
        Some \<lparr>alg = ''HS256'', payload = demo_claims, signature = Bytes ''AAAA''\<rparr>
      else if s = ''noaud'' then
        Some (jwt_sign (demo_claims(''aud'' := None)) ''SECRET'' ''HS256'')
      else if s = ''stranger'' then
        Some (jwt_sign (demo_claims(''aud'' \<mapsto> JStr ''OTHER'')) ''SECRET'' ''HS256'')
      else if s = ''noirt'' then
        Some (jwt_sign (demo_claims(''irt'' := None)) ''SECRET'' ''HS256'')
      else if s = ''plain'' then Some (jwt_sign plain_body ''SECRET'' ''HS256'')
      else if s = ''routed'' then Some (jwt_sign routed_body ''SECRET'' ''HS256'')
      else None)"

definition demo_dump :: "jwt \<Rightarrow> string" where
  "demo_dump j =
     (if payload j ''cb_uri'' = Some (JStr []) then ''blank''
      else if payload j ''path'' = None then ''plain''
      else ''routed'')"

definition demo_lib :: jwtlib where
  "demo_lib = \<lparr>jwt_load = demo_load, jwt_dump = demo_dump\<rparr>"

definition empty_store :: data_store where
  "empty_store = \<lparr>cache = Map.empty, retrieved = []\<rparr>"

definition used_store :: data_store where
  "used_store =
     \<lparr>cache = [''/nonces/irt1'' \<mapsto> [(''value'', JStr ''irt1'')]],
      retrieved = [JStr ''acchref'']\<rparr>"

definition demo_result :: id_site_callback_result where
  "demo_result =
     \<lparr>account = \<lparr>href = JStr ''acchref'', sp_http_status = 200\<rparr>, state = JNull\<rparr>"








section \<open>Unfolding rules\<close>

lemmas demo_defs =
  demo_key_def demo_claims_def demo_load_def demo_dump_def demo_lib_def demo_app_def
  empty_store_def used_store_def demo_result_def plain_body_def routed_body_def
  id_site_body_def jwt_sign_def

lemmas url_defs =
  callback_jwt_def urlparse_query_def split_netloc_def split_scheme_def netloc_end_def
  scheme_char_def digit_char_def

lemmas jwt_defs = jwt_decode_def jwt_decode_unverified_def hmac_algorithms_def dict_get_def

lemmas handle_defs =
  handle_id_site_callback_def check_callback_def store_callback_def cache_get_def
  cache_put_def cache_hit_def

lemmas build_defs =
  build_id_site_redirect_url_def id_site_jwt_def jwt_encode_def urlencode_def quote_plus_def quote_char_def
  always_safe_def SSO_ENDPOINT_def

section \<open>The two parts of the handler\<close>

lemma store_callback_cache:
  "store_callback app d n st = (out, st') \<Longrightarrow>
     cache st' = (cache st)(nonce_href n \<mapsto> [(''value'', nonce_value n)])"
  by (auto simp: store_callback_def cache_put_def Let_def split: option.splits)

lemma store_callback_not_None: "fst (store_callback app d n st) \<noteq> Returned None"
  by (auto simp: store_callback_def Let_def split: option.splits)

lemma check_callback_Inl:
  "check_callback lib app now url st = Inl out \<Longrightarrow> out \<noteq> Returned (Some r)"
  by (auto simp: check_callback_def Let_def split: option.splits sum.splits if_splits)

section \<open>Evaluations in the concrete application\<close>

lemma good_first:
  "handle_id_site_callback demo_lib demo_app 0 ''http://localhost/?jwtResponse=good'' empty_store
     = (Returned (Some demo_result), used_store)"
  by (simp add: handle_defs jwt_defs url_defs demo_defs)

lemma forged_none:
  "handle_id_site_callback demo_lib demo_app 0 ''http://localhost/?jwtResponse=forged''
     empty_store = (Returned None, empty_store)"
  by (simp add: handle_defs jwt_defs url_defs demo_defs)

section \<open>Failure paths leave the store alone\<close>

text \<open>
  C9. Whenever \<open>handle_id_site_callback\<close> returns None, the store is as it was before the
  call: no nonce was put into the cache and no account was retrieved.
\<close>

theorem none_leaves_store:
  "fst (handle_id_site_callback lib app now url st) = Returned None \<Longrightarrow>
   snd (handle_id_site_callback lib app now url st) = st"
  using store_callback_not_None
  by (auto simp: handle_id_site_callback_def split: sum.splits prod.splits)

theorem none_leaves_store_witness:
  "fst (handle_id_site_callback demo_lib demo_app 0 ''http://localhost/?jwtResponse=forged''
          empty_store) = Returned None \<and>
   snd (handle_id_site_callback demo_lib demo_app 0 ''http://localhost/?jwtResponse=forged''
          empty_store) = empty_store"
proof -
  have none:
    "fst (handle_id_site_callback demo_lib demo_app 0 ''http://localhost/?jwtResponse=forged''
            empty_store) = Returned None"
    by (simp add: forged_none)
  from none_leaves_store [OF none] show ?thesis
    using none by simp
qed

section \<open>The nonce is written after verification only\<close>

lemma jwt_decode_Inr:
  "jwt_decode lib tok key now = Inr d \<Longrightarrow>
   \<exists>j. jwt_load lib tok = Some j \<and> d = payload j \<and>
       signature j = HMAC (alg j) key (payload j)"
  by (auto simp: jwt_decode_def split: option.splits if_splits jval.splits)

lemma check_callback_Inr:
  assumes "check_callback lib app now url st = Inr (d, n)"
  shows "\<exists>tok j key. callback_jwt url = Some tok \<and> jwt_load lib tok = Some j \<and>
           get_key app (dict_get (payload j) ''aud'') = Some key \<and>
           jwt_decode lib tok (secret key) now = Inr d"
proof -
  from assms obtain tok where tok: "callback_jwt url = Some tok"
    by (auto simp: check_callback_def split: option.splits)
  from assms tok obtain j where j: "jwt_load lib tok = Some j"
    by (auto simp: check_callback_def jwt_decode_unverified_def split: option.splits)
  from assms tok j obtain key where key: "get_key app (dict_get (payload j) ''aud'') = Some key"
    by (auto simp: check_callback_def jwt_decode_unverified_def Let_def
             split: option.splits if_splits)
  from assms tok j key have "jwt_decode lib tok (secret key) now = Inr d"
    by (auto simp: check_callback_def jwt_decode_unverified_def Let_def
             split: option.splits if_splits sum.splits)
  with tok j key show ?thesis by blast
qed

lemma handle_changed:
  assumes "snd (handle_id_site_callback lib app now url st) \<noteq> st"
  shows "\<exists>tok j key. callback_jwt url = Some tok \<and> jwt_load lib tok = Some j \<and>
           get_key app (dict_get (payload j) ''aud'') = Some key \<and>
           signature j = HMAC (alg j) (secret key) (payload j) \<and>
           jwt_decode lib tok (secret key) now = Inr (payload j)"
proof -
  from assms obtain d n where c: "check_callback lib app now url st = Inr (d, n)"
    by (auto simp: handle_id_site_callback_def split: sum.splits)
  from check_callback_Inr [OF c] obtain tok j key where
    f: "callback_jwt url = Some tok" "jwt_load lib tok = Some j"
       "get_key app (dict_get (payload j) ''aud'') = Some key"
       "jwt_decode lib tok (secret key) now = Inr d"
    by blast
  from jwt_decode_Inr [OF f(4)] f(2)
  have "d = payload j" "signature j = HMAC (alg j) (secret key) (payload j)" by auto
  with f show ?thesis by blast
qed

lemma handle_no_aud:
  assumes "callback_jwt url = Some tok" "jwt_load lib tok = Some j"
    and "\<not> truthy (dict_get (payload j) ''aud'')"
  shows "handle_id_site_callback lib app now url st = (Returned None, st)"
  using assms
  by (simp add: handle_id_site_callback_def check_callback_def jwt_decode_unverified_def Let_def)

lemma handle_no_key:
  assumes "callback_jwt url = Some tok" "jwt_load lib tok = Some j"
    and "get_key app (dict_get (payload j) ''aud'') = None"
  shows "handle_id_site_callback lib app now url st = (Returned None, st)"
  using assms
  by (simp add: handle_id_site_callback_def check_callback_def jwt_decode_unverified_def Let_def)

lemma handle_decode_error:
  assumes "callback_jwt url = Some tok" "jwt_load lib tok = Some j"
    and "get_key app (dict_get (payload j) ''aud'') = Some key"
    and "jwt_decode lib tok (secret key) now = Inl e"
  shows "handle_id_site_callback lib app now url st = (Returned None, st)"
  using assms
  by (simp add: handle_id_site_callback_def check_callback_def jwt_decode_unverified_def Let_def)

lemma bad_signature:
  "jwt_load lib tok = Some j \<Longrightarrow> signature j \<noteq> HMAC (alg j) key (payload j) \<Longrightarrow>
   jwt_decode lib tok key now = Inl DecodeError"
  by (simp add: jwt_decode_def)

text \<open>
  C3. A call of \<open>handle_id_site_callback\<close> that changes the store (so in particular one
  that writes a nonce) has found a token in the URL, resolved its \<open>aud\<close> claim to an API
  key and verified the token's signature with that key's secret. In particular a token
  whose \<open>aud\<close> is absent or falsy, or resolves to no key, or whose signature is not the MAC
  under the resolved key, makes the call return None with the store unchanged.
\<close>

theorem nonce_only_after_verification:
  "(snd (handle_id_site_callback lib app now url st) \<noteq> st \<longrightarrow>
      (\<exists>tok j key. callback_jwt url = Some tok \<and> jwt_load lib tok = Some j \<and>
           get_key app (dict_get (payload j) ''aud'') = Some key \<and>
           signature j = HMAC (alg j) (secret key) (payload j) \<and>
           jwt_decode lib tok (secret key) now = Inr (payload j))) \<and>
   (\<forall>tok j. callback_jwt url = Some tok \<and> jwt_load lib tok = Some j \<and>
        (\<not> truthy (dict_get (payload j) ''aud'') \<or>
         get_key app (dict_get (payload j) ''aud'') = None \<or>
         (\<exists>key. get_key app (dict_get (payload j) ''aud'') = Some key \<and>
                signature j \<noteq> HMAC (alg j) (secret key) (payload j)))
      \<longrightarrow> handle_id_site_callback lib app now url st = (Returned None, st))"
proof (intro conjI impI allI)
  assume "snd (handle_id_site_callback lib app now url st) \<noteq> st"
  then show "\<exists>tok j key. callback_jwt url = Some tok \<and> jwt_load lib tok = Some j \<and>
           get_key app (dict_get (payload j) ''aud'') = Some key \<and>
           signature j = HMAC (alg j) (secret key) (payload j) \<and>
           jwt_decode lib tok (secret key) now = Inr (payload j)"
    by (rule handle_changed)
next
  fix tok j
  assume a: "callback_jwt url = Some tok \<and> jwt_load lib tok = Some j \<and>
        (\<not> truthy (dict_get (payload j) ''aud'') \<or>
         get_key app (dict_get (payload j) ''aud'') = None \<or>
         (\<exists>key. get_key app (dict_get (payload j) ''aud'') = Some key \<and>
                signature j \<noteq> HMAC (alg j) (secret key) (payload j)))"
  then have tok: "callback_jwt url = Some tok" and j: "jwt_load lib tok = Some j" by simp_all
  from a have "\<not> truthy (dict_get (payload j) ''aud'') \<or>
         get_key app (dict_get (payload j) ''aud'') = None \<or>
         (\<exists>key. get_key app (dict_get (payload j) ''aud'') = Some key \<and>
                signature j \<noteq> HMAC (alg j) (secret key) (payload j))"
    by simp
  then show "handle_id_site_callback lib app now url st = (Returned None, st)"
  proof (elim disjE exE conjE)
    assume "\<not> truthy (dict_get (payload j) ''aud'')"
    with tok j show ?thesis by (rule handle_no_aud)
  next
    assume "get_key app (dict_get (payload j) ''aud'') = None"
    with tok j show ?thesis by (rule handle_no_key)
  next
    fix key
    assume k: "get_key app (dict_get (payload j) ''aud'') = Some key"
      and s: "signature j \<noteq> HMAC (alg j) (secret key) (payload j)"
    from bad_signature [OF j s]
    have "jwt_decode lib tok (secret key) now = Inl DecodeError" .
    with tok j k show ?thesis by (rule handle_decode_error)
  qed
qed

theorem nonce_only_after_verification_witness:
  "snd (handle_id_site_callback demo_lib demo_app 0 ''http://localhost/?jwtResponse=good''
          empty_store) \<noteq> empty_store \<and>
   (\<exists>tok j key. callback_jwt ''http://localhost/?jwtResponse=good'' = Some tok \<and>
      jwt_load demo_lib tok = Some j \<and>
      get_key demo_app (dict_get (payload j) ''aud'') = Some key \<and>
      signature j = HMAC (alg j) (secret key) (payload j) \<and>
      jwt_decode demo_lib tok (secret key) 0 = Inr (payload j)) \<and>
   callback_jwt ''http://localhost/?jwtResponse=forged'' = Some ''forged'' \<and>
   handle_id_site_callback demo_lib demo_app 0 ''http://localhost/?jwtResponse=forged''
     empty_store = (Returned None, empty_store) \<and>
   callback_jwt ''http://localhost/?jwtResponse=noaud'' = Some ''noaud'' \<and>
   handle_id_site_callback demo_lib demo_app 0 ''http://localhost/?jwtResponse=noaud''
     empty_store = (Returned None, empty_store) \<and>
   callback_jwt ''http://localhost/?jwtResponse=stranger'' = Some ''stranger'' \<and>
   handle_id_site_callback demo_lib demo_app 0 ''http://localhost/?jwtResponse=stranger''
     empty_store = (Returned None, empty_store)"
proof -
  have changed:
    "snd (handle_id_site_callback demo_lib demo_app 0 ''http://localhost/?jwtResponse=good''
            empty_store) \<noteq> empty_store"
    unfolding good_first by (simp add: used_store_def empty_store_def)
  have forged: "callback_jwt ''http://localhost/?jwtResponse=forged'' = Some ''forged''"
    by (simp add: url_defs)
  have forged_j: "jwt_load demo_lib ''forged'' =
      Some \<lparr>alg = ''HS256'', payload = demo_claims, signature = Bytes ''AAAA''\<rparr>"
    by (simp add: demo_lib_def demo_load_def)
  have forged_sig:
    "get_key demo_app (dict_get demo_claims ''aud'') = Some demo_key \<and>
     Bytes ''AAAA'' \<noteq> HMAC ''HS256'' (secret demo_key) demo_claims"
    by (simp add: demo_app_def dict_get_def demo_claims_def)
  have noaud: "callback_jwt ''http://localhost/?jwtResponse=noaud'' = Some ''noaud''"
    by (simp add: url_defs)
  have noaud_j: "jwt_load demo_lib ''noaud'' =
      Some (jwt_sign (demo_claims(''aud'' := None)) ''SECRET'' ''HS256'')"
    by (simp add: demo_lib_def demo_load_def)
  have noaud_falsy:
    "\<not> truthy (dict_get (payload (jwt_sign (demo_claims(''aud'' := None)) ''SECRET'' ''HS256''))
                 ''aud'')"
    by (simp add: jwt_sign_def dict_get_def)
  have stranger: "callback_jwt ''http://localhost/?jwtResponse=stranger'' = Some ''stranger''"
    by (simp add: url_defs)
  have stranger_j: "jwt_load demo_lib ''stranger'' =
      Some (jwt_sign (demo_claims(''aud'' \<mapsto> JStr ''OTHER'')) ''SECRET'' ''HS256'')"
    by (simp add: demo_lib_def demo_load_def)
  have stranger_key:
    "get_key demo_app
       (dict_get (payload (jwt_sign (demo_claims(''aud'' \<mapsto> JStr ''OTHER'')) ''SECRET'' ''HS256''))
          ''aud'') = None"
    by (simp add: jwt_sign_def dict_get_def demo_app_def)
  have c1: "\<exists>tok j key. callback_jwt ''http://localhost/?jwtResponse=good'' = Some tok \<and>
      jwt_load demo_lib tok = Some j \<and>
      get_key demo_app (dict_get (payload j) ''aud'') = Some key \<and>
      signature j = HMAC (alg j) (secret key) (payload j) \<and>
      jwt_decode demo_lib tok (secret key) 0 = Inr (payload j)"
    by (rule nonce_only_after_verification [THEN conjunct1, THEN mp, OF changed])
  have c2: "handle_id_site_callback demo_lib demo_app 0 ''http://localhost/?jwtResponse=forged''
     empty_store = (Returned None, empty_store)"
    by (rule nonce_only_after_verification
          [THEN conjunct2, THEN spec, THEN spec, THEN mp, OF conjI [OF forged conjI [OF forged_j]]])
       (use forged_sig in simp)
  have c3: "handle_id_site_callback demo_lib demo_app 0 ''http://localhost/?jwtResponse=noaud''
     empty_store = (Returned None, empty_store)"
    by (rule nonce_only_after_verification
          [THEN conjunct2, THEN spec, THEN spec, THEN mp, OF conjI [OF noaud conjI [OF noaud_j]]])
       (use noaud_falsy in simp)
  have c4: "handle_id_site_callback demo_lib demo_app 0 ''http://localhost/?jwtResponse=stranger''
     empty_store = (Returned None, empty_store)"
    by (rule nonce_only_after_verification
          [THEN conjunct2, THEN spec, THEN spec, THEN mp, OF conjI [OF stranger conjI [OF stranger_j]]])
       (use stranger_key in simp)
  from changed c1 forged c2 noaud c3 stranger c4 show ?thesis by (intro conjI)
qed

section \<open>Single use\<close>

text \<open>
  What a verified call found in the URL: the token, its claims, the key its \<open>aud\<close> claim
  resolves to, and the nonce made from its \<open>irt\<close> claim.
\<close>

lemma check_callback_Inr_claims:
  assumes "check_callback lib app now url st = Inr (d, n)"
  shows "\<exists>tok j key irt. callback_jwt url = Some tok \<and> jwt_load lib tok = Some j \<and>
           truthy (dict_get (payload j) ''aud'') \<and>
           get_key app (dict_get (payload j) ''aud'') = Some key \<and>
           jwt_decode lib tok (secret key) now = Inr (payload j) \<and>
           payload j ''irt'' = Some irt \<and> n = new_nonce app irt"
proof -
  from check_callback_Inr [OF assms] obtain tok j key where
    f: "callback_jwt url = Some tok" "jwt_load lib tok = Some j"
       "get_key app (dict_get (payload j) ''aud'') = Some key"
       "jwt_decode lib tok (secret key) now = Inr d"
    by blast
  from jwt_decode_Inr [OF f(4)] f(2) have d: "d = payload j" by auto
  from assms f have t: "truthy (dict_get (payload j) ''aud'')"
    by (simp add: check_callback_def jwt_decode_unverified_def Let_def split: if_splits)
  from assms f t obtain irt where "payload j ''irt'' = Some irt" "n = new_nonce app irt"
    by (auto simp: check_callback_def jwt_decode_unverified_def Let_def d
             split: option.splits if_splits)
  with f t d show ?thesis by blast
qed

text \<open>
  A token that was decoded once is decoded again at any other time unless its \<open>exp\<close> has
  passed by then: the clock enters \<open>jwt.decode\<close> through the expiry check only.
\<close>

lemma jwt_decode_later:
  assumes "jwt_decode lib tok key now1 = Inr d" and "jwt_load lib tok = Some j"
  shows "jwt_decode lib tok key now2 =
           (case payload j ''exp'' of
              Some (JNum e) \<Rightarrow> if e < now2 then Inl ExpiredSignature else Inr (payload j)
            | _ \<Rightarrow> Inr (payload j))"
  using assms
  by (auto simp: jwt_decode_def split: option.splits if_splits jval.splits)

lemma check_callback_replay:
  assumes "check_callback lib app now1 url st = Inr (d, n)"
      and "cache_hit (cache_get st2 (nonce_href n))"
  shows "\<exists>tok j. callback_jwt url = Some tok \<and> jwt_load lib tok = Some j \<and>
           check_callback lib app now2 url st2 =
             Inl (case payload j ''exp'' of
                    Some (JNum e) \<Rightarrow>
                      if e < now2 then Returned None
                      else Raised (ValueError ''JWT has already been used.'')
                  | _ \<Rightarrow> Raised (ValueError ''JWT has already been used.''))"
proof -
  from check_callback_Inr_claims [OF assms(1)] obtain tok j key irt where
    f: "callback_jwt url = Some tok" "jwt_load lib tok = Some j"
       "truthy (dict_get (payload j) ''aud'')"
       "get_key app (dict_get (payload j) ''aud'') = Some key"
       "jwt_decode lib tok (secret key) now1 = Inr (payload j)"
       "payload j ''irt'' = Some irt" "n = new_nonce app irt"
    by blast
  have "check_callback lib app now2 url st2 =
          Inl (case payload j ''exp'' of
                 Some (JNum e) \<Rightarrow>
                   if e < now2 then Returned None
                   else Raised (ValueError ''JWT has already been used.'')
               | _ \<Rightarrow> Raised (ValueError ''JWT has already been used.''))"
    using f(1-4,6) assms(2) [unfolded f(7)]
    by (simp add: check_callback_def jwt_decode_unverified_def Let_def
                  jwt_decode_later [OF f(5) f(2)]
             split: option.splits jval.splits)
  with f(1,2) show ?thesis by blast
qed

text \<open>
  The second call for a URL that a first call verified: \<open>jwt.decode\<close> (line 223) comes
  before the look into the cache (line 232), so an expired token returns None and any
  other raises the replay error.
\<close>

lemma second_call:
  assumes first: "handle_id_site_callback lib app now1 url st = (Returned (Some r), st1)"
  shows "\<exists>tok j. callback_jwt url = Some tok \<and> jwt_load lib tok = Some j \<and>
           handle_id_site_callback lib app now2 url st1 =
             (case payload j ''exp'' of
                Some (JNum e) \<Rightarrow>
                  if e < now2 then Returned None
                  else Raised (ValueError ''JWT has already been used.'')
              | _ \<Rightarrow> Raised (ValueError ''JWT has already been used.''), st1)"
proof -
  from first obtain d n where c1: "check_callback lib app now1 url st = Inr (d, n)"
    and s1: "store_callback app d n st = (Returned (Some r), st1)"
    using check_callback_Inl [of lib app now1 url st _ r]
    by (auto simp: handle_id_site_callback_def split: sum.splits)
  have "cache st1 (nonce_href n) = Some [(''value'', nonce_value n)]"
    using store_callback_cache [OF s1] by simp
  then have hit: "cache_hit (cache_get st1 (nonce_href n))"
    by (simp add: cache_hit_def cache_get_def)
  from check_callback_replay [OF c1 hit, of now2] show ?thesis
    by (auto simp: handle_id_site_callback_def)
qed

lemma replay_outcome_not_success:
  "(case x of
      Some (JNum e) \<Rightarrow>
        if e < now2 then Returned None
        else Raised (ValueError ''JWT has already been used.'')
    | _ \<Rightarrow> Raised (ValueError ''JWT has already been used.'')) \<noteq> Returned (Some r2)"
  by (simp split: option.splits jval.splits)

lemma good_url: "callback_jwt ''http://localhost/?jwtResponse=good'' = Some ''good''"
  by (simp add: url_defs)

lemma good_exp: "jwt_load demo_lib ''good'' = Some j \<Longrightarrow> payload j ''exp'' = Some (JNum 3600)"
  by (auto simp: demo_defs)

text \<open>
  Against C1 as stated: the first call verifies the token, and a second call with the same
  URL, made after the token's \<open>exp\<close>, does not fail with the replay error: it returns None.
\<close>

theorem single_use_counterexample:
  "handle_id_site_callback demo_lib demo_app 0 ''http://localhost/?jwtResponse=good'' empty_store
     = (Returned (Some demo_result), used_store) \<and>
   handle_id_site_callback demo_lib demo_app 4000 ''http://localhost/?jwtResponse=good'' used_store
     = (Returned None, used_store)"
  by (simp add: handle_defs jwt_defs url_defs demo_defs)

text \<open>
  C1, amended. Single use: when a first call of \<open>handle_id_site_callback\<close> verifies a
  callback URL, a second call with the same URL, made at any time in the store the first
  call left behind, never succeeds again and leaves the store as it is. It returns None
  when the token's \<open>exp\<close> claim lies before the clock reading of the second call, and
  raises the ValueError \<open>JWT has already been used.\<close>, the handler's replay error,
  otherwise.
\<close>

theorem second_call_never_succeeds:
  assumes "handle_id_site_callback lib app now1 url st = (Returned (Some r), st1)"
  shows "(\<forall>r2. fst (handle_id_site_callback lib app now2 url st1) \<noteq> Returned (Some r2)) \<and>
         (\<exists>tok j. callback_jwt url = Some tok \<and> jwt_load lib tok = Some j \<and>
            handle_id_site_callback lib app now2 url st1 =
              (case payload j ''exp'' of
                 Some (JNum e) \<Rightarrow>
                   if e < now2 then Returned None
                   else Raised (ValueError ''JWT has already been used.'')
               | _ \<Rightarrow> Raised (ValueError ''JWT has already been used.''), st1))"
proof -
  from second_call [OF assms, of now2] obtain tok j where
    f: "callback_jwt url = Some tok" "jwt_load lib tok = Some j"
       "handle_id_site_callback lib app now2 url st1 =
              (case payload j ''exp'' of
                 Some (JNum e) \<Rightarrow>
                   if e < now2 then Returned None
                   else Raised (ValueError ''JWT has already been used.'')
               | _ \<Rightarrow> Raised (ValueError ''JWT has already been used.''), st1)"
    by blast
  have "fst (handle_id_site_callback lib app now2 url st1) \<noteq> Returned (Some r2)" for r2
    unfolding f(3) fst_conv by (rule replay_outcome_not_success)
  with f show ?thesis by blast
qed

theorem second_call_never_succeeds_witness:
  "handle_id_site_callback demo_lib demo_app 0 ''http://localhost/?jwtResponse=good'' empty_store
     = (Returned (Some demo_result), used_store) \<and>
   handle_id_site_callback demo_lib demo_app 60 ''http://localhost/?jwtResponse=good'' used_store
     = (Raised (ValueError ''JWT has already been used.''), used_store) \<and>
   handle_id_site_callback demo_lib demo_app 4000 ''http://localhost/?jwtResponse=good'' used_store
     = (Returned None, used_store)"
proof -
  note inst = second_call_never_succeeds [OF good_first]
  from inst [of 60] obtain tok j where
    a: "callback_jwt ''http://localhost/?jwtResponse=good'' = Some tok"
       "jwt_load demo_lib tok = Some j"
       "handle_id_site_callback demo_lib demo_app 60 ''http://localhost/?jwtResponse=good''
          used_store =
        (case payload j ''exp'' of
           Some (JNum e) \<Rightarrow>
             if e < 60 then Returned None
             else Raised (ValueError ''JWT has already been used.'')
         | _ \<Rightarrow> Raised (ValueError ''JWT has already been used.''), used_store)"
    by blast
  from a(1) have "tok = ''good''" by (simp add: good_url)
  with a(2) have "payload j ''exp'' = Some (JNum 3600)" by (simp add: good_exp)
  with a(3) have later:
    "handle_id_site_callback demo_lib demo_app 60 ''http://localhost/?jwtResponse=good''
       used_store = (Raised (ValueError ''JWT has already been used.''), used_store)"
    by simp
  from inst [of 4000] obtain tok j where
    b: "callback_jwt ''http://localhost/?jwtResponse=good'' = Some tok"
       "jwt_load demo_lib tok = Some j"
       "handle_id_site_callback demo_lib demo_app 4000 ''http://localhost/?jwtResponse=good''
          used_store =
        (case payload j ''exp'' of
           Some (JNum e) \<Rightarrow>
             if e < 4000 then Returned None
             else Raised (ValueError ''JWT has already been used.'')
         | _ \<Rightarrow> Raised (ValueError ''JWT has already been used.''), used_store)"
    by blast
  from b(1) have "tok = ''good''" by (simp add: good_url)
  with b(2) have "payload j ''exp'' = Some (JNum 3600)" by (simp add: good_exp)
  with b(3) have expired:
    "handle_id_site_callback demo_lib demo_app 4000 ''http://localhost/?jwtResponse=good''
       used_store = (Returned None, used_store)"
    by simp
  from good_first later expired show ?thesis by simp
qed

section \<open>Two callers: the replay check is a read followed by a write\<close>

lemma two_steps:
  "step_caller lib app now url (fst (step_caller lib app now url Start st))
       (snd (step_caller lib app now url Start st)) =
     (Done (fst (handle_id_site_callback lib app now url st)),
      snd (handle_id_site_callback lib app now url st))"
  by (auto simp: step_caller_def handle_id_site_callback_def split: sum.splits prod.splits)

lemma run_serial:
  "run_callers lib app now_a now_b url [True, True, False, False] (Start, Start, st) =
     (Done (fst (handle_id_site_callback lib app now_a url st)),
      Done (fst (handle_id_site_callback lib app now_b url
                   (snd (handle_id_site_callback lib app now_a url st)))),
      snd (handle_id_site_callback lib app now_b url
             (snd (handle_id_site_callback lib app now_a url st))))"
proof -
  obtain a1 s1 where e1: "step_caller lib app now_a url Start st = (a1, s1)" by force
  obtain b1 s3 where e3:
    "step_caller lib app now_b url Start (snd (handle_id_site_callback lib app now_a url st))
       = (b1, s3)"
    by force
  show ?thesis
    using two_steps [of lib app now_a url st]
          two_steps [of lib app now_b url "snd (handle_id_site_callback lib app now_a url st)"]
    by (simp add: e1 e3)
qed

text \<open>
  Against C2 as stated: both callers look into the cache before either stores the nonce,
  and both calls for the same token succeed.
\<close>

theorem concurrent_replay_counterexample:
  "run_callers demo_lib demo_app 0 1 ''http://localhost/?jwtResponse=good''
     [True, False, True, False] (Start, Start, empty_store)
   = (Done (Returned (Some demo_result)), Done (Returned (Some demo_result)),
      used_store\<lparr>retrieved := [JStr ''acchref'', JStr ''acchref'']\<rparr>)"
  by (simp add: step_caller_def handle_defs jwt_defs url_defs demo_defs)

text \<open>
  C2, amended. The replay check of \<open>handle_id_site_callback\<close> is a read of the cache
  (\<open>_cache_get\<close>) followed by a separate write (\<open>_cache_put\<close>). When two calls for the same
  callback URL run one after the other on a shared store, each reading the clock for
  itself, they never both succeed; and when the first succeeds, the second returns None
  if the token's \<open>exp\<close> claim lies before the second caller's clock reading, and raises
  the ValueError \<open>JWT has already been used.\<close> otherwise.
\<close>

theorem serial_callers:
  assumes "run_callers lib app now_a now_b url [True, True, False, False] (Start, Start, st)
             = (a, b, st')"
  shows "\<not> (succeeded a \<and> succeeded b) \<and>
         (succeeded a \<longrightarrow>
            (\<exists>tok j. callback_jwt url = Some tok \<and> jwt_load lib tok = Some j \<and>
               b = Done (case payload j ''exp'' of
                           Some (JNum e) \<Rightarrow>
                             if e < now_b then Returned None
                             else Raised (ValueError ''JWT has already been used.'')
                         | _ \<Rightarrow> Raised (ValueError ''JWT has already been used.''))))"
proof -
  let ?h1 = "handle_id_site_callback lib app now_a url st"
  let ?h2 = "handle_id_site_callback lib app now_b url (snd ?h1)"
  have a: "a = Done (fst ?h1)" and b: "b = Done (fst ?h2)"
    using assms unfolding run_serial by simp_all
  have imp: "\<exists>tok j. callback_jwt url = Some tok \<and> jwt_load lib tok = Some j \<and>
               b = Done (case payload j ''exp'' of
                           Some (JNum e) \<Rightarrow>
                             if e < now_b then Returned None
                             else Raised (ValueError ''JWT has already been used.'')
                         | _ \<Rightarrow> Raised (ValueError ''JWT has already been used.''))"
    if "succeeded a"
  proof -
    from that a obtain r where r: "fst ?h1 = Returned (Some r)"
      by (cases "fst ?h1" rule: outcome.exhaust) (auto elim: succeeded.elims)
    then have "?h1 = (Returned (Some r), snd ?h1)" by (metis prod.collapse)
    from second_call [OF this, of now_b] show ?thesis by (auto simp: b)
  qed
  have "\<not> succeeded b" if "succeeded a"
  proof -
    from imp [OF that] obtain x where
      "b = Done (case x of
                   Some (JNum e) \<Rightarrow>
                     if e < now_b then Returned None
                     else Raised (ValueError ''JWT has already been used.'')
                 | _ \<Rightarrow> Raised (ValueError ''JWT has already been used.''))"
      by blast
    then show ?thesis by (simp split: option.splits jval.splits)
  qed
  with imp show ?thesis by blast
qed

theorem serial_callers_witness:
  "run_callers demo_lib demo_app 0 60 ''http://localhost/?jwtResponse=good''
     [True, True, False, False] (Start, Start, empty_store)
   = (Done (Returned (Some demo_result)),
      Done (Raised (ValueError ''JWT has already been used.'')), used_store) \<and>
   run_callers demo_lib demo_app 0 4000 ''http://localhost/?jwtResponse=good''
     [True, True, False, False] (Start, Start, empty_store)
   = (Done (Returned (Some demo_result)), Done (Returned None), used_store) \<and>
   \<not> (succeeded (Done (Returned (Some demo_result))) \<and>
      succeeded (Done (Raised (ValueError ''JWT has already been used.'')))) \<and>
   \<not> (succeeded (Done (Returned (Some demo_result))) \<and> succeeded (Done (Returned None)))"
proof -
  have run1:
    "run_callers demo_lib demo_app 0 60 ''http://localhost/?jwtResponse=good''
       [True, True, False, False] (Start, Start, empty_store)
     = (Done (Returned (Some demo_result)),
        Done (Raised (ValueError ''JWT has already been used.'')), used_store)"
    by (simp add: step_caller_def handle_defs jwt_defs url_defs demo_defs)
  have run2:
    "run_callers demo_lib demo_app 0 4000 ''http://localhost/?jwtResponse=good''
       [True, True, False, False] (Start, Start, empty_store)
     = (Done (Returned (Some demo_result)), Done (Returned None), used_store)"
    by (simp add: step_caller_def handle_defs jwt_defs url_defs demo_defs)
  from serial_callers [OF run1, THEN conjunct1] serial_callers [OF run2, THEN conjunct1]
  show ?thesis
    using run1 run2 by simp
qed

section \<open>The redirect URL\<close>







lemma build_url:
  "build_id_site_redirect_url lib app key cb path st now jti =
     SSO_ENDPOINT @ ''?jwtRequest='' @ quote_plus (id_site_jwt lib app key cb path st now jti)"
  by (simp add: build_id_site_redirect_url_def urlencode_def quote_plus_def quote_char_def
                always_safe_def)





lemma body_path:
  "id_site_body app key cb path st now jti ''path'' =
     (case path of None \<Rightarrow> None | Some p \<Rightarrow> if p = [] then None else Some (JStr p))"
  by (cases path; cases st) (simp_all add: id_site_body_def Let_def)

lemma body_state:
  "id_site_body app key cb path st now jti ''state'' =
     (case st of None \<Rightarrow> None | Some s \<Rightarrow> if s = [] then None else Some (JStr s))"
  by (cases path; cases st) (simp_all add: id_site_body_def Let_def)




section \<open>Evaluations of the builder\<close>

lemma plain_jwt:
  "id_site_jwt demo_lib demo_app demo_key ''http://localhost/'' None None 0 ''jti1'' = ''plain''"
  by (simp add: id_site_jwt_def jwt_encode_def demo_lib_def demo_dump_def jwt_sign_def
                id_site_body_def)


lemma plain_load:
  "jwt_load demo_lib ''plain'' =
     Some (jwt_sign (id_site_body demo_app demo_key ''http://localhost/'' None None 0 ''jti1'')
             (secret demo_key) ''HS256'')"
  by (simp add: demo_lib_def demo_load_def plain_body_def demo_key_def)

lemma routed_load:
  "jwt_load demo_lib ''routed'' =
     Some (jwt_sign (id_site_body demo_app demo_key ''http://testserver/'' (Some ''/#/register'')
                       (Some ''test'') 0 ''jti2'')
             (secret demo_key) ''HS256'')"
  by (simp add: demo_lib_def demo_load_def routed_body_def demo_key_def)

lemma plain_url:
  "build_id_site_redirect_url demo_lib demo_app demo_key ''http://localhost/'' None None 0 ''jti1''
     = ''https://api.stormpath.com/sso?jwtRequest=plain''"
  by (simp add: build_url plain_jwt SSO_ENDPOINT_def quote_plus_def quote_char_def always_safe_def)














section \<open>Round trip of a request token\<close>




section \<open>A request token without path and state\<close>




section \<open>The builder takes any callback URI\<close>




section \<open>Falsy path and state\<close>

text \<open>
  C10. An empty-string path or state gives the same token body, and so the same redirect
  URL, as a path or state that was not supplied; the body of a built token never holds
  an empty-string \<open>path\<close> or \<open>state\<close>.
\<close>

theorem falsy_path_state_omitted:
  "id_site_body app key cb (Some []) st now jti = id_site_body app key cb None st now jti \<and>
   id_site_body app key cb path (Some []) now jti = id_site_body app key cb path None now jti \<and>
   build_id_site_redirect_url lib app key cb (Some []) (Some []) now jti =
     build_id_site_redirect_url lib app key cb None None now jti \<and>
   id_site_body app key cb path st now jti ''path'' \<noteq> Some (JStr []) \<and>
   id_site_body app key cb path st now jti ''state'' \<noteq> Some (JStr [])"
proof -
  have p: "id_site_body app key cb (Some []) st now jti = id_site_body app key cb None st now jti"
    for st
    by (simp add: id_site_body_def)
  have s: "id_site_body app key cb path (Some []) now jti = id_site_body app key cb path None now jti"
    for path
    by (simp add: id_site_body_def)
  have b: "build_id_site_redirect_url lib app key cb (Some []) (Some []) now jti =
     build_id_site_redirect_url lib app key cb None None now jti"
    by (simp add: build_id_site_redirect_url_def id_site_jwt_def p s)
  have np: "id_site_body app key cb path st now jti ''path'' \<noteq> Some (JStr [])"
    by (simp add: body_path split: option.splits)
  have ns: "id_site_body app key cb path st now jti ''state'' \<noteq> Some (JStr [])"
    by (simp add: body_state split: option.splits)
  from p s b np ns show ?thesis by (intro conjI)
qed

theorem falsy_path_state_omitted_witness:
  "build_id_site_redirect_url demo_lib demo_app demo_key ''http://localhost/'' (Some []) (Some [])
     0 ''jti1'' = ''https://api.stormpath.com/sso?jwtRequest=plain'' \<and>
   id_site_body demo_app demo_key ''http://localhost/'' (Some []) (Some []) 0 ''jti1'' ''path''
     \<noteq> Some (JStr []) \<and>
   id_site_body demo_app demo_key ''http://localhost/'' (Some []) (Some []) 0 ''jti1'' ''state''
     \<noteq> Some (JStr [])"
proof -
  note inst = falsy_path_state_omitted
          [of demo_app demo_key "''http://localhost/''" "Some []" 0 "''jti1''" "Some []" demo_lib]
  note url = inst [THEN conjunct2, THEN conjunct2, THEN conjunct1]
  note no_path = inst [THEN conjunct2, THEN conjunct2, THEN conjunct2, THEN conjunct1]
  note no_state = inst [THEN conjunct2, THEN conjunct2, THEN conjunct2, THEN conjunct2]
  from trans [OF url plain_url] no_path no_state show ?thesis by (intro conjI)
qed

section \<open>The algorithm comes from the token's header\<close>

text \<open>
  C4. The claim asks that the handler verify under the pinned HS256 and never under the
  algorithm a token's header names. The handler passes only the token and the secret to
  \<open>jwt.decode\<close>: a response token whose header names HS384, signed with HMAC-SHA-384
  under the resolved secret, is verified under HS384 and accepted.
\<close>

theorem header_algorithm_accepted:
  "jwt_load demo_lib ''hs384'' = Some (jwt_sign demo_claims (secret demo_key) ''HS384'') \<and>
   alg (jwt_sign demo_claims (secret demo_key) ''HS384'') = ''HS384'' \<and>
   handle_id_site_callback demo_lib demo_app 0 ''http://localhost/?jwtResponse=hs384''
     empty_store = (Returned (Some demo_result), used_store)"
  by (simp add: handle_defs jwt_defs url_defs demo_defs)

section \<open>How the handler fails\<close>

lemma handle_malformed:
  "callback_jwt url = None \<Longrightarrow>
   handle_id_site_callback lib app now url st = (Returned None, st)"
  by (simp add: handle_id_site_callback_def check_callback_def)

lemma handle_undecodable:
  "callback_jwt url = Some tok \<Longrightarrow> jwt_load lib tok = None \<Longrightarrow>
   handle_id_site_callback lib app now url st = (Returned None, st)"
  by (simp add: handle_id_site_callback_def check_callback_def jwt_decode_unverified_def)

lemma handle_verified:
  assumes "callback_jwt url = Some tok" "jwt_load lib tok = Some j"
      and "truthy (dict_get (payload j) ''aud'')"
      and "get_key app (dict_get (payload j) ''aud'') = Some key"
      and "jwt_decode lib tok (secret key) now = Inr d"
  shows "check_callback lib app now url st =
           (case d ''irt'' of
              None \<Rightarrow> Inl (Raised (KeyError ''irt''))
            | Some irt \<Rightarrow>
                if cache_hit (cache_get st (nonce_href (new_nonce app irt)))
                then Inl (Raised (ValueError ''JWT has already been used.''))
                else Inr (d, new_nonce app irt))"
  using assms
  by (simp add: check_callback_def jwt_decode_unverified_def Let_def split: option.splits)

lemma handle_replay:
  assumes "callback_jwt url = Some tok" "jwt_load lib tok = Some j"
      and "truthy (dict_get (payload j) ''aud'')"
      and "get_key app (dict_get (payload j) ''aud'') = Some key"
      and "jwt_decode lib tok (secret key) now = Inr d"
      and "d ''irt'' = Some irt"
      and "cache_hit (cache_get st (nonce_href (new_nonce app irt)))"
  shows "handle_id_site_callback lib app now url st =
           (Raised (ValueError ''JWT has already been used.''), st)"
  using handle_verified [OF assms(1-5), of st] assms(6,7)
  by (simp add: handle_id_site_callback_def)

lemma handle_no_irt:
  assumes "callback_jwt url = Some tok" "jwt_load lib tok = Some j"
      and "truthy (dict_get (payload j) ''aud'')"
      and "get_key app (dict_get (payload j) ''aud'') = Some key"
      and "jwt_decode lib tok (secret key) now = Inr d"
      and "d ''irt'' = None"
  shows "handle_id_site_callback lib app now url st = (Raised (KeyError ''irt''), st)"
  using handle_verified [OF assms(1-5), of st] assms(6)
  by (simp add: handle_id_site_callback_def)

text \<open>
  Against C6 as stated: a URL without a token and a token with a forged signature give
  the same outcome, None; a replayed token is raised as a ValueError.
\<close>

theorem failures_counterexample:
  "handle_id_site_callback demo_lib demo_app 0 ''http://localhost/'' empty_store
     = (Returned None, empty_store) \<and>
   handle_id_site_callback demo_lib demo_app 0 ''http://localhost/?jwtResponse=forged''
     empty_store = (Returned None, empty_store) \<and>
   handle_id_site_callback demo_lib demo_app 0 ''http://localhost/?jwtResponse=good'' used_store
     = (Raised (ValueError ''JWT has already been used.''), used_store)"
  by (simp add: handle_defs jwt_defs url_defs demo_defs)

text \<open>
  C6, amended. For a malformed URL, an undecodable token, a missing audience, an unknown
  signer, a bad signature and an expired token, \<open>handle_id_site_callback\<close> returns the one
  value None and leaves the store alone, so these failures look the same to the caller.
  A replayed token is raised as the ValueError \<open>JWT has already been used.\<close> and a token
  without \<open>irt\<close> as a KeyError; neither is returned as a result.
\<close>

theorem failures_collapse:
  "(callback_jwt url = None \<longrightarrow>
      handle_id_site_callback lib app now url st = (Returned None, st)) \<and>
   (\<forall>tok. callback_jwt url = Some tok \<and> jwt_load lib tok = None \<longrightarrow>
      handle_id_site_callback lib app now url st = (Returned None, st)) \<and>
   (\<forall>tok j. callback_jwt url = Some tok \<and> jwt_load lib tok = Some j \<and>
        \<not> truthy (dict_get (payload j) ''aud'') \<longrightarrow>
      handle_id_site_callback lib app now url st = (Returned None, st)) \<and>
   (\<forall>tok j. callback_jwt url = Some tok \<and> jwt_load lib tok = Some j \<and>
        get_key app (dict_get (payload j) ''aud'') = None \<longrightarrow>
      handle_id_site_callback lib app now url st = (Returned None, st)) \<and>
   (\<forall>tok j key. callback_jwt url = Some tok \<and> jwt_load lib tok = Some j \<and>
        get_key app (dict_get (payload j) ''aud'') = Some key \<and>
        jwt_decode lib tok (secret key) now = Inl DecodeError \<longrightarrow>
      handle_id_site_callback lib app now url st = (Returned None, st)) \<and>
   (\<forall>tok j key. callback_jwt url = Some tok \<and> jwt_load lib tok = Some j \<and>
        get_key app (dict_get (payload j) ''aud'') = Some key \<and>
        jwt_decode lib tok (secret key) now = Inl ExpiredSignature \<longrightarrow>
      handle_id_site_callback lib app now url st = (Returned None, st)) \<and>
   (\<forall>tok j key d irt. callback_jwt url = Some tok \<and> jwt_load lib tok = Some j \<and>
        truthy (dict_get (payload j) ''aud'') \<and>
        get_key app (dict_get (payload j) ''aud'') = Some key \<and>
        jwt_decode lib tok (secret key) now = Inr d \<and> d ''irt'' = Some irt \<and>
        cache_hit (cache_get st (nonce_href (new_nonce app irt))) \<longrightarrow>
      handle_id_site_callback lib app now url st =
        (Raised (ValueError ''JWT has already been used.''), st)) \<and>
   (\<forall>tok j key d. callback_jwt url = Some tok \<and> jwt_load lib tok = Some j \<and>
        truthy (dict_get (payload j) ''aud'') \<and>
        get_key app (dict_get (payload j) ''aud'') = Some key \<and>
        jwt_decode lib tok (secret key) now = Inr d \<and> d ''irt'' = None \<longrightarrow>
      handle_id_site_callback lib app now url st = (Raised (KeyError ''irt''), st))"
proof (intro conjI allI impI; (elim conjE)?)
  assume "callback_jwt url = None"
  then show "handle_id_site_callback lib app now url st = (Returned None, st)"
    by (rule handle_malformed)
next
  fix tok
  assume "callback_jwt url = Some tok" "jwt_load lib tok = None"
  then show "handle_id_site_callback lib app now url st = (Returned None, st)"
    by (rule handle_undecodable)
next
  fix tok j
  assume "callback_jwt url = Some tok" "jwt_load lib tok = Some j"
    "\<not> truthy (dict_get (payload j) ''aud'')"
  then show "handle_id_site_callback lib app now url st = (Returned None, st)"
    by (rule handle_no_aud)
next
  fix tok j
  assume "callback_jwt url = Some tok" "jwt_load lib tok = Some j"
    "get_key app (dict_get (payload j) ''aud'') = None"
  then show "handle_id_site_callback lib app now url st = (Returned None, st)"
    by (rule handle_no_key)
next
  fix tok j key
  assume "callback_jwt url = Some tok" "jwt_load lib tok = Some j"
    "get_key app (dict_get (payload j) ''aud'') = Some key"
    "jwt_decode lib tok (secret key) now = Inl DecodeError"
  then show "handle_id_site_callback lib app now url st = (Returned None, st)"
    by (rule handle_decode_error)
next
  fix tok j key
  assume "callback_jwt url = Some tok" "jwt_load lib tok = Some j"
    "get_key app (dict_get (payload j) ''aud'') = Some key"
    "jwt_decode lib tok (secret key) now = Inl ExpiredSignature"
  then show "handle_id_site_callback lib app now url st = (Returned None, st)"
    by (rule handle_decode_error)
next
  fix tok j key d irt
  assume "callback_jwt url = Some tok" "jwt_load lib tok = Some j"
    "truthy (dict_get (payload j) ''aud'')"
    "get_key app (dict_get (payload j) ''aud'') = Some key"
    "jwt_decode lib tok (secret key) now = Inr d" "d ''irt'' = Some irt"
    "cache_hit (cache_get st (nonce_href (new_nonce app irt)))"
  then show "handle_id_site_callback lib app now url st =
        (Raised (ValueError ''JWT has already been used.''), st)"
    by (rule handle_replay)
next
  fix tok j key d
  assume "callback_jwt url = Some tok" "jwt_load lib tok = Some j"
    "truthy (dict_get (payload j) ''aud'')"
    "get_key app (dict_get (payload j) ''aud'') = Some key"
    "jwt_decode lib tok (secret key) now = Inr d" "d ''irt'' = None"
  then show "handle_id_site_callback lib app now url st = (Raised (KeyError ''irt''), st)"
    by (rule handle_no_irt)
qed

theorem failures_collapse_witness:
  "callback_jwt ''http://localhost/'' = None \<and>
   handle_id_site_callback demo_lib demo_app 0 ''http://localhost/'' empty_store
     = (Returned None, empty_store) \<and>
   jwt_load demo_lib ''garbage'' = None \<and>
   handle_id_site_callback demo_lib demo_app 0 ''http://localhost/?jwtResponse=garbage''
     empty_store = (Returned None, empty_store) \<and>
   \<not> truthy (dict_get (demo_claims(''aud'' := None)) ''aud'') \<and>
   handle_id_site_callback demo_lib demo_app 0 ''http://localhost/?jwtResponse=noaud''
     empty_store = (Returned None, empty_store) \<and>
   get_key demo_app (JStr ''OTHER'') = None \<and>
   handle_id_site_callback demo_lib demo_app 0 ''http://localhost/?jwtResponse=stranger''
     empty_store = (Returned None, empty_store) \<and>
   jwt_decode demo_lib ''forged'' (secret demo_key) 0 = Inl DecodeError \<and>
   handle_id_site_callback demo_lib demo_app 0 ''http://localhost/?jwtResponse=forged''
     empty_store = (Returned None, empty_store) \<and>
   jwt_decode demo_lib ''good'' (secret demo_key) 4000 = Inl ExpiredSignature \<and>
   handle_id_site_callback demo_lib demo_app 4000 ''http://localhost/?jwtResponse=good''
     empty_store = (Returned None, empty_store) \<and>
   cache_hit (cache_get used_store (nonce_href (new_nonce demo_app (JStr ''irt1'')))) \<and>
   handle_id_site_callback demo_lib demo_app 0 ''http://localhost/?jwtResponse=good''
     used_store = (Raised (ValueError ''JWT has already been used.''), used_store) \<and>
   jwt_decode demo_lib ''noirt'' (secret demo_key) 0 = Inr (demo_claims(''irt'' := None)) \<and>
   handle_id_site_callback demo_lib demo_app 0 ''http://localhost/?jwtResponse=noirt''
     empty_store = (Raised (KeyError ''irt''), empty_store)"
proof -
  note c = failures_collapse
  note c1 = c [THEN conjunct1]
  note c2 = c [THEN conjunct2, THEN conjunct1]
  note c3 = c [THEN conjunct2, THEN conjunct2, THEN conjunct1]
  note c4 = c [THEN conjunct2, THEN conjunct2, THEN conjunct2, THEN conjunct1]
  note c5 = c [THEN conjunct2, THEN conjunct2, THEN conjunct2, THEN conjunct2, THEN conjunct1]
  note c6 = c [THEN conjunct2, THEN conjunct2, THEN conjunct2, THEN conjunct2, THEN conjunct2,
               THEN conjunct1]
  note c7 = c [THEN conjunct2, THEN conjunct2, THEN conjunct2, THEN conjunct2, THEN conjunct2,
               THEN conjunct2, THEN conjunct1]
  note c8 = c [THEN conjunct2, THEN conjunct2, THEN conjunct2, THEN conjunct2, THEN conjunct2,
               THEN conjunct2, THEN conjunct2]
  have u_bare: "callback_jwt ''http://localhost/'' = None"
    by (simp add: url_defs)
  have u_garbage: "callback_jwt ''http://localhost/?jwtResponse=garbage'' = Some ''garbage''"
    and u_noaud: "callback_jwt ''http://localhost/?jwtResponse=noaud'' = Some ''noaud''"
    and u_stranger: "callback_jwt ''http://localhost/?jwtResponse=stranger'' = Some ''stranger''"
    and u_forged: "callback_jwt ''http://localhost/?jwtResponse=forged'' = Some ''forged''"
    and u_good: "callback_jwt ''http://localhost/?jwtResponse=good'' = Some ''good''"
    and u_noirt: "callback_jwt ''http://localhost/?jwtResponse=noirt'' = Some ''noirt''"
    by (simp_all add: url_defs)
  have l_garbage: "jwt_load demo_lib ''garbage'' = None"
    and l_noaud: "jwt_load demo_lib ''noaud'' =
          Some (jwt_sign (demo_claims(''aud'' := None)) ''SECRET'' ''HS256'')"
    and l_stranger: "jwt_load demo_lib ''stranger'' =
          Some (jwt_sign (demo_claims(''aud'' \<mapsto> JStr ''OTHER'')) ''SECRET'' ''HS256'')"
    and l_forged: "jwt_load demo_lib ''forged'' =
          Some \<lparr>alg = ''HS256'', payload = demo_claims, signature = Bytes ''AAAA''\<rparr>"
    and l_good: "jwt_load demo_lib ''good'' = Some (jwt_sign demo_claims ''SECRET'' ''HS256'')"
    and l_noirt: "jwt_load demo_lib ''noirt'' =
          Some (jwt_sign (demo_claims(''irt'' := None)) ''SECRET'' ''HS256'')"
    by (simp_all add: demo_lib_def demo_load_def)
  have aud_noaud: "\<not> truthy (dict_get (demo_claims(''aud'' := None)) ''aud'')"
    by (simp add: dict_get_def)
  have aud_noaud':
    "\<not> truthy (dict_get (payload (jwt_sign (demo_claims(''aud'' := None)) ''SECRET'' ''HS256''))
                 ''aud'')"
    by (simp add: jwt_sign_def dict_get_def)
  have key_other: "get_key demo_app (JStr ''OTHER'') = None"
    by (simp add: demo_app_def)
  have key_stranger:
    "get_key demo_app
       (dict_get (payload (jwt_sign (demo_claims(''aud'' \<mapsto> JStr ''OTHER'')) ''SECRET'' ''HS256''))
          ''aud'') = None"
    by (simp add: jwt_sign_def dict_get_def demo_app_def)
  have aud_id: "dict_get demo_claims ''aud'' = JStr ''ID''"
    by (simp add: dict_get_def demo_claims_def)
  have key_id: "get_key demo_app (JStr ''ID'') = Some demo_key"
    by (simp add: demo_app_def)
  have key_forged:
    "get_key demo_app
       (dict_get (payload \<lparr>alg = ''HS256'', payload = demo_claims, signature = Bytes ''AAAA''\<rparr>)
          ''aud'') = Some demo_key"
    by (simp add: aud_id key_id)
  have key_good:
    "get_key demo_app (dict_get (payload (jwt_sign demo_claims ''SECRET'' ''HS256'')) ''aud'')
       = Some demo_key"
    by (simp add: jwt_sign_def aud_id key_id)
  have truthy_good:
    "truthy (dict_get (payload (jwt_sign demo_claims ''SECRET'' ''HS256'')) ''aud'')"
    by (simp add: jwt_sign_def aud_id)
  have key_noirt:
    "get_key demo_app
       (dict_get (payload (jwt_sign (demo_claims(''irt'' := None)) ''SECRET'' ''HS256'')) ''aud'')
       = Some demo_key"
    by (simp add: jwt_sign_def dict_get_def demo_claims_def demo_app_def)
  have truthy_noirt:
    "truthy (dict_get (payload (jwt_sign (demo_claims(''irt'' := None)) ''SECRET'' ''HS256''))
               ''aud'')"
    by (simp add: jwt_sign_def dict_get_def demo_claims_def)
  have d_forged: "jwt_decode demo_lib ''forged'' (secret demo_key) 0 = Inl DecodeError"
    by (simp add: jwt_decode_def l_forged hmac_algorithms_def)
  have d_expired: "jwt_decode demo_lib ''good'' (secret demo_key) 4000 = Inl ExpiredSignature"
    by (simp add: jwt_decode_def l_good hmac_algorithms_def jwt_sign_def demo_key_def
                  demo_claims_def)
  have d_good: "jwt_decode demo_lib ''good'' (secret demo_key) 0 = Inr demo_claims"
    by (simp add: jwt_decode_def l_good hmac_algorithms_def jwt_sign_def demo_key_def)
       (simp add: demo_claims_def)
  have irt_good: "demo_claims ''irt'' = Some (JStr ''irt1'')"
    by (simp add: demo_claims_def)
  have d_noirt:
    "jwt_decode demo_lib ''noirt'' (secret demo_key) 0 = Inr (demo_claims(''irt'' := None))"
    by (simp add: jwt_decode_def l_noirt hmac_algorithms_def jwt_sign_def demo_key_def)
       (simp add: demo_claims_def)
  have irt_noirt: "(demo_claims(''irt'' := None)) ''irt'' = None"
    by simp
  have hit: "cache_hit (cache_get used_store (nonce_href (new_nonce demo_app (JStr ''irt1''))))"
    by (simp add: cache_hit_def cache_get_def used_store_def demo_app_def)
  have r1: "handle_id_site_callback demo_lib demo_app 0 ''http://localhost/'' empty_store
     = (Returned None, empty_store)"
    by (rule c1 [THEN mp, OF u_bare])
  have r2: "handle_id_site_callback demo_lib demo_app 0 ''http://localhost/?jwtResponse=garbage''
     empty_store = (Returned None, empty_store)"
    by (rule c2 [THEN spec, THEN mp, OF conjI [OF u_garbage l_garbage]])
  have r3: "handle_id_site_callback demo_lib demo_app 0 ''http://localhost/?jwtResponse=noaud''
     empty_store = (Returned None, empty_store)"
    by (rule c3 [THEN spec, THEN spec, THEN mp, OF conjI [OF u_noaud conjI [OF l_noaud aud_noaud']]])
  have r4: "handle_id_site_callback demo_lib demo_app 0 ''http://localhost/?jwtResponse=stranger''
     empty_store = (Returned None, empty_store)"
    by (rule c4 [THEN spec, THEN spec, THEN mp,
                 OF conjI [OF u_stranger conjI [OF l_stranger key_stranger]]])
  have r5: "handle_id_site_callback demo_lib demo_app 0 ''http://localhost/?jwtResponse=forged''
     empty_store = (Returned None, empty_store)"
    by (rule c5 [THEN spec, THEN spec, THEN spec, THEN mp,
                 OF conjI [OF u_forged conjI [OF l_forged conjI [OF key_forged d_forged]]]])
  have r6: "handle_id_site_callback demo_lib demo_app 4000 ''http://localhost/?jwtResponse=good''
     empty_store = (Returned None, empty_store)"
    by (rule c6 [THEN spec, THEN spec, THEN spec, THEN mp,
                 OF conjI [OF u_good conjI [OF l_good conjI [OF key_good d_expired]]]])
  have r7: "handle_id_site_callback demo_lib demo_app 0 ''http://localhost/?jwtResponse=good''
     used_store = (Raised (ValueError ''JWT has already been used.''), used_store)"
    by (rule c7 [THEN spec, THEN spec, THEN spec, THEN spec, THEN spec, THEN mp,
                 OF conjI [OF u_good conjI [OF l_good conjI [OF truthy_good conjI [OF key_good
                    conjI [OF d_good conjI [OF irt_good hit]]]]]]])
  have r8: "handle_id_site_callback demo_lib demo_app 0 ''http://localhost/?jwtResponse=noirt''
     empty_store = (Raised (KeyError ''irt''), empty_store)"
    by (rule c8 [THEN spec, THEN spec, THEN spec, THEN spec, THEN mp,
                 OF conjI [OF u_noirt conjI [OF l_noirt conjI [OF truthy_noirt conjI [OF key_noirt
                    conjI [OF d_noirt irt_noirt]]]]]])
  from u_bare r1 l_garbage r2 aud_noaud r3 key_other r4 d_forged r5 d_expired r6 hit r7 d_noirt r8
  show ?thesis by (intro conjI)
qed

end
